theory Spec2Isabelle
  imports Main "HOL-Library.Sublist"
begin

section \<open>Static content of the comparison page\<close>

text \<open>
  The page is a single React component \<open>App\<close> with two leaf components, \<open>FileTree\<close> and
  \<open>CodeBlock\<close>. JavaScript strings are modelled as \<^typ>\<open>string\<close>. The template literals of
  the source hold a few characters outside ASCII (box drawing, arrows, two emoji); each is
  kept as the UTF-8 bytes the source file stores for it, under a name of its own. No
  definition below indexes into a text or measures its length, so the choice of encoding
  is not observable.
\<close>

definition box_tee :: string where
  "box_tee = [CHR 0xE2, CHR 0x94, CHR 0x9C]"

definition box_bar :: string where
  "box_bar = [CHR 0xE2, CHR 0x94, CHR 0x82]"

definition box_corner :: string where
  "box_corner = [CHR 0xE2, CHR 0x94, CHR 0x94]"

definition box_dash :: string where
  "box_dash = [CHR 0xE2, CHR 0x94, CHR 0x80]"

definition arrow_left :: string where
  "arrow_left = [CHR 0xE2, CHR 0x86, CHR 0x90]"

definition arrow_right :: string where
  "arrow_right = [CHR 0xE2, CHR 0x86, CHR 0x92]"

definition warning_sign :: string where
  "warning_sign = [CHR 0xE2, CHR 0x9A, CHR 0xA0, CHR 0xEF, CHR 0xB8, CHR 0x8F]"

definition check_mark :: string where
  "check_mark = [CHR 0xE2, CHR 0x9C, CHR 0x85]"

subsection \<open>The template literals\<close>

text \<open>
  The trees and code samples that \<open>getBlocks\<close> hands out, line by line as the source has
  them. The two samples of the RPC section, \<open>honoRpcServerCode\<close> and
  \<open>honoRpcClientCode\<close>, are shown whatever the topic is and are left out.
\<close>

definition nextjsFileTree :: string where
  \<open>nextjsFileTree =
    ''app/\<newline>'' @
    box_tee @ box_dash @ box_dash @ '' api/\<newline>'' @
    box_bar @ ''   '' @ box_tee @ box_dash @ box_dash @ '' users/\<newline>'' @
    box_bar @ ''   '' @ box_bar @ ''   '' @ box_corner @ box_dash @ box_dash @ '' route.ts        '' @ arrow_left @ '' GET /api/users\<newline>'' @
    box_bar @ ''   '' @ box_tee @ box_dash @ box_dash @ '' posts/\<newline>'' @
    box_bar @ ''   '' @ box_bar @ ''   '' @ box_tee @ box_dash @ box_dash @ '' route.ts        '' @ arrow_left @ '' GET /api/posts\<newline>'' @
    box_bar @ ''   '' @ box_bar @ ''   '' @ box_corner @ box_dash @ box_dash @ '' [id]/\<newline>'' @
    box_bar @ ''   '' @ box_bar @ ''       '' @ box_corner @ box_dash @ box_dash @ '' route.ts    '' @ arrow_left @ '' GET /api/posts/:id\<newline>'' @
    box_bar @ ''   '' @ box_tee @ box_dash @ box_dash @ '' auth/\<newline>'' @
    box_bar @ ''   '' @ box_bar @ ''   '' @ box_tee @ box_dash @ box_dash @ '' login/\<newline>'' @
    box_bar @ ''   '' @ box_bar @ ''   '' @ box_bar @ ''   '' @ box_corner @ box_dash @ box_dash @ '' route.ts    '' @ arrow_left @ '' POST /api/auth/login\<newline>'' @
    box_bar @ ''   '' @ box_bar @ ''   '' @ box_corner @ box_dash @ box_dash @ '' logout/\<newline>'' @
    box_bar @ ''   '' @ box_bar @ ''       '' @ box_corner @ box_dash @ box_dash @ '' route.ts    '' @ arrow_left @ '' POST /api/auth/logout\<newline>'' @
    box_bar @ ''   '' @ box_corner @ box_dash @ box_dash @ '' comments/\<newline>'' @
    box_bar @ ''       '' @ box_corner @ box_dash @ box_dash @ '' route.ts        '' @ arrow_left @ '' GET /api/comments\<newline>'' @
    ''\<newline>'' @
    ''6 files for 6 endpoints\<newline>'' @
    warning_sign @ '' Adding a new endpoint = create a new file''\<close>

definition honoFileTree :: string where
  \<open>honoFileTree =
    ''app/\<newline>'' @
    box_corner @ box_dash @ box_dash @ '' api/\<newline>'' @
    ''    '' @ box_corner @ box_dash @ box_dash @ '' [[...route]]/\<newline>'' @
    ''        '' @ box_corner @ box_dash @ box_dash @ '' route.ts        '' @ arrow_left @ '' ALL endpoints here!\<newline>'' @
    ''\<newline>'' @
    ''// Inside route.ts:\<newline>'' @
    ''import { Hono } from 'hono'\<newline>'' @
    ''import { handle } from 'hono/vercel'\<newline>'' @
    ''\<newline>'' @
    ''const app = new Hono().basePath('/api')\<newline>'' @
    ''\<newline>'' @
    ''app.get('/users', ...)\<newline>'' @
    ''app.get('/posts', ...)\<newline>'' @
    ''app.get('/posts/:id', ...)\<newline>'' @
    ''app.post('/auth/login', ...)\<newline>'' @
    ''app.post('/auth/logout', ...)\<newline>'' @
    ''app.get('/comments', ...)\<newline>'' @
    ''\<newline>'' @
    ''export const GET = handle(app)\<newline>'' @
    ''export const POST = handle(app)\<newline>'' @
    ''\<newline>'' @
    check_mark @ '' 1 file for all endpoints\<newline>'' @
    check_mark @ '' Adding new endpoint = add one line''\<close>

definition nextjsAuthCode :: string where
  \<open>nextjsAuthCode =
    ''// lib/auth.ts\<newline>'' @
    ''export async function verifyAuth(request: Request) {\<newline>'' @
    ''  const token = request.headers.get('authorization')\<newline>'' @
    ''  if (!token) throw new Error('Unauthorized')\<newline>'' @
    ''  return { userId: '123' }\<newline>'' @
    ''}\<newline>'' @
    ''\<newline>'' @
    ''// app/api/users/route.ts\<newline>'' @
    ''import { verifyAuth } from '@/lib/auth'\<newline>'' @
    ''\<newline>'' @
    ''export async function GET(request: Request) {\<newline>'' @
    ''  try {\<newline>'' @
    ''    const { userId } = await verifyAuth(request)\<newline>'' @
    ''    return Response.json({ users: [], userId })\<newline>'' @
    ''  } catch {\<newline>'' @
    ''    return Response.json({ error: 'Unauthorized' }, { status: 401 })\<newline>'' @
    ''  }\<newline>'' @
    ''}\<newline>'' @
    ''\<newline>'' @
    ''// app/api/posts/route.ts - Must repeat auth logic\<newline>'' @
    ''export async function GET(request: Request) {\<newline>'' @
    ''  try {\<newline>'' @
    ''    const { userId } = await verifyAuth(request)\<newline>'' @
    ''    // ... repeated pattern\<newline>'' @
    ''  } catch {\<newline>'' @
    ''    return Response.json({ error: 'Unauthorized' }, { status: 401 })\<newline>'' @
    ''  }\<newline>'' @
    ''}''\<close>

definition honoAuthCode :: string where
  \<open>honoAuthCode =
    ''// app/api/[[...route]]/route.ts\<newline>'' @
    ''import { Hono } from 'hono'\<newline>'' @
    ''\<newline>'' @
    ''const app = new Hono().basePath('/api')\<newline>'' @
    ''\<newline>'' @
    ''// Auth middleware - defined once\<newline>'' @
    ''app.use('/protected/*', async (c, next) => {\<newline>'' @
    ''  const token = c.req.header('authorization')\<newline>'' @
    ''  if (!token) {\<newline>'' @
    ''    return c.json({ error: 'Unauthorized' }, 401)\<newline>'' @
    ''  }\<newline>'' @
    ''  c.set('userId', '123')  // Store in context\<newline>'' @
    ''  await next()\<newline>'' @
    ''})\<newline>'' @
    ''\<newline>'' @
    ''// All protected routes automatically inherit auth\<newline>'' @
    ''app.get('/protected/users', (c) => {\<newline>'' @
    ''  const userId = c.get('userId')  // Retrieve from context\<newline>'' @
    ''  return c.json({ users: [], userId })\<newline>'' @
    ''})\<newline>'' @
    ''\<newline>'' @
    ''app.get('/protected/posts', (c) => {\<newline>'' @
    ''  const userId = c.get('userId')\<newline>'' @
    ''  // No auth logic needed here\<newline>'' @
    ''  return c.json({ posts: [], userId })\<newline>'' @
    ''})''\<close>

definition nextjsErrorCode :: string where
  \<open>nextjsErrorCode =
    ''// app/api/users/route.ts\<newline>'' @
    ''export async function GET() {\<newline>'' @
    ''  try {\<newline>'' @
    ''    const users = await fetchUsers()\<newline>'' @
    ''    return Response.json({ users })\<newline>'' @
    ''  } catch (error) {\<newline>'' @
    ''    return Response.json(\<newline>'' @
    ''      { message: 'An error occurred' },\<newline>'' @
    ''      { status: 500 }\<newline>'' @
    ''    )\<newline>'' @
    ''  }\<newline>'' @
    ''}\<newline>'' @
    ''\<newline>'' @
    ''// app/api/posts/route.ts - Different error format\<newline>'' @
    ''export async function GET() {\<newline>'' @
    ''  try {\<newline>'' @
    ''    const posts = await fetchPosts()\<newline>'' @
    ''    return Response.json({ posts })\<newline>'' @
    ''  } catch (err) {\<newline>'' @
    ''    return Response.json(\<newline>'' @
    ''      { error: 'Failed to load', details: err.message },\<newline>'' @
    ''      { status: 500 }\<newline>'' @
    ''    )\<newline>'' @
    ''  }\<newline>'' @
    ''}\<newline>'' @
    ''\<newline>'' @
    ''// Inconsistent error formats across routes''\<close>

definition honoErrorCode :: string where
  \<open>honoErrorCode =
    ''import { Hono, HTTPException } from 'hono'\<newline>'' @
    ''\<newline>'' @
    ''const app = new Hono()\<newline>'' @
    ''\<newline>'' @
    ''// Global error handler - catches ALL errors\<newline>'' @
    ''app.onError((err, c) => {\<newline>'' @
    ''  if (err instanceof HTTPException) {\<newline>'' @
    ''    return err.getResponse()\<newline>'' @
    ''  }\<newline>'' @
    ''  console.error('Server error:', err)\<newline>'' @
    ''  return c.json({\<newline>'' @
    ''    error: 'internal_server_error',\<newline>'' @
    ''    message: err.message,\<newline>'' @
    ''    timestamp: new Date().toISOString()\<newline>'' @
    ''  }, 500)\<newline>'' @
    ''})\<newline>'' @
    ''\<newline>'' @
    ''// Throw anywhere - consistent format guaranteed\<newline>'' @
    ''app.get('/users/:id', async (c) => {\<newline>'' @
    ''  const id = c.req.param('id')\<newline>'' @
    ''  if (!id) {\<newline>'' @
    ''    throw new HTTPException(400, { message: 'Invalid ID' })\<newline>'' @
    ''  }\<newline>'' @
    ''  const user = await getUser(id)\<newline>'' @
    ''  if (!user) {\<newline>'' @
    ''    throw new HTTPException(404, { message: 'User not found' })\<newline>'' @
    ''  }\<newline>'' @
    ''  return c.json({ user })\<newline>'' @
    ''})\<newline>'' @
    ''\<newline>'' @
    ''// All errors follow the same format''\<close>

definition nextjsMiddlewareCode :: string where
  \<open>nextjsMiddlewareCode =
    ''// middleware.ts\<newline>'' @
    ''// '' @ warning_sign @ '' Next.js middleware is NOT designed for API layer\<newline>'' @
    ''// Official docs: "Do not recommend Middleware as sole \<newline>'' @
    ''// method of protecting routes"\<newline>'' @
    ''\<newline>'' @
    ''// Designed for: redirects, rewrites, page-level auth\<newline>'' @
    ''// NOT for: API authentication, business logic\<newline>'' @
    ''\<newline>'' @
    ''export function middleware(request: NextRequest) {\<newline>'' @
    ''  const path = request.nextUrl.pathname\<newline>'' @
    ''  \<newline>'' @
    ''  // '' @ check_mark @ '' Good: Page-level redirects\<newline>'' @
    ''  if (path.startsWith('/dashboard')) {\<newline>'' @
    ''    const session = request.cookies.get('session')\<newline>'' @
    ''    if (!session) {\<newline>'' @
    ''      return NextResponse.redirect('/login')\<newline>'' @
    ''    }\<newline>'' @
    ''  }\<newline>'' @
    ''  return NextResponse.next()\<newline>'' @
    ''}\<newline>'' @
    ''\<newline>'' @
    ''// Exclude API routes - middleware shouldn't touch APIs\<newline>'' @
    ''export const config = {\<newline>'' @
    ''  matcher: ['/((?!api|_next).*)'],\<newline>'' @
    ''}''\<close>

definition honoMiddlewareCode :: string where
  \<open>honoMiddlewareCode =
    ''// app/api/[[...route]]/route.ts\<newline>'' @
    ''import { Hono } from 'hono'\<newline>'' @
    ''\<newline>'' @
    ''const app = new Hono().basePath('/api')\<newline>'' @
    ''\<newline>'' @
    ''// '' @ check_mark @ '' Hono middleware runs WITHIN your API handler\<newline>'' @
    ''// Perfect for: auth, logging, validation, CORS\<newline>'' @
    ''\<newline>'' @
    ''app.use('/protected/*', async (c, next) => {\<newline>'' @
    ''  const token = c.req.header('authorization')\<newline>'' @
    ''  if (!token) {\<newline>'' @
    ''    return c.json({ error: 'Unauthorized' }, 401)\<newline>'' @
    ''  }\<newline>'' @
    ''  // Verify token, set user in context\<newline>'' @
    ''  c.set('userId', verifyToken(token))\<newline>'' @
    ''  await next()\<newline>'' @
    ''})\<newline>'' @
    ''\<newline>'' @
    ''// Protected routes automatically inherit auth\<newline>'' @
    ''app.get('/protected/users', (c) => {\<newline>'' @
    ''  const userId = c.get('userId')\<newline>'' @
    ''  return c.json({ users: [], userId })\<newline>'' @
    ''})''\<close>

definition nextjsRoutingCode :: string where
  \<open>nextjsRoutingCode =
    ''// Routing is implicit via file structure\<newline>'' @
    ''// Each folder = route segment\<newline>'' @
    ''// Each route.ts = endpoint handler\<newline>'' @
    ''\<newline>'' @
    ''app/\<newline>'' @
    box_tee @ box_dash @ box_dash @ '' api/\<newline>'' @
    box_bar @ ''   '' @ box_tee @ box_dash @ box_dash @ '' users/\<newline>'' @
    box_bar @ ''   '' @ box_bar @ ''   '' @ box_tee @ box_dash @ box_dash @ '' route.ts        '' @ arrow_right @ '' /api/users\<newline>'' @
    box_bar @ ''   '' @ box_bar @ ''   '' @ box_corner @ box_dash @ box_dash @ '' [id]/\<newline>'' @
    box_bar @ ''   '' @ box_bar @ ''       '' @ box_corner @ box_dash @ box_dash @ '' route.ts    '' @ arrow_right @ '' /api/users/:id\<newline>'' @
    box_bar @ ''   '' @ box_corner @ box_dash @ box_dash @ '' posts/\<newline>'' @
    box_bar @ ''       '' @ box_corner @ box_dash @ box_dash @ '' route.ts        '' @ arrow_right @ '' /api/posts\<newline>'' @
    ''\<newline>'' @
    ''// route.ts exports HTTP methods\<newline>'' @
    ''export async function GET(request: Request) { }\<newline>'' @
    ''export async function POST(request: Request) { }\<newline>'' @
    ''export async function PUT(request: Request) { }\<newline>'' @
    ''export async function DELETE(request: Request) { }\<newline>'' @
    ''\<newline>'' @
    ''// No explicit route registration\<newline>'' @
    ''// Routes determined by file location''\<close>

definition honoRoutingCode :: string where
  \<open>honoRoutingCode =
    ''// app/api/[[...route]]/route.ts\<newline>'' @
    ''import { Hono } from 'hono'\<newline>'' @
    ''\<newline>'' @
    ''const app = new Hono().basePath('/api')\<newline>'' @
    ''\<newline>'' @
    ''// Explicit, programmatic routing\<newline>'' @
    ''app.get('/users', listUsers)\<newline>'' @
    ''app.get('/users/:id', getUser)\<newline>'' @
    ''app.post('/users', createUser)\<newline>'' @
    ''app.put('/users/:id', updateUser)\<newline>'' @
    ''app.delete('/users/:id', deleteUser)\<newline>'' @
    ''\<newline>'' @
    ''// Route groups with shared middleware\<newline>'' @
    ''const protectedRoutes = new Hono()\<newline>'' @
    ''protectedRoutes.use('*', authMiddleware)\<newline>'' @
    ''protectedRoutes.get('/profile', getProfile)\<newline>'' @
    ''protectedRoutes.put('/profile', updateProfile)\<newline>'' @
    ''\<newline>'' @
    ''app.route('/protected', protectedRoutes)\<newline>'' @
    ''\<newline>'' @
    ''// Mount sub-apps\<newline>'' @
    ''import { blogApp } from './blog'\<newline>'' @
    ''app.route('/blog', blogApp)\<newline>'' @
    ''\<newline>'' @
    ''// Full control over routing structure\<newline>'' @
    ''export const GET = handle(app)\<newline>'' @
    ''export const POST = handle(app)\<newline>'' @
    ''export const PUT = handle(app)\<newline>'' @
    ''export const DELETE = handle(app)''\<close>


section \<open>Topics and the content table\<close>

text \<open>
  \<open>TabType\<close> is a union of five string literals; at run time a topic is a string, and the
  type only promises that it is one of the five. The model keeps the run-time view: a
  topic is a \<^typ>\<open>string\<close>, the union is the list of its members, and the functions below
  are defined on every string, as the compiled code is.
\<close>

type_synonym TabType = string

definition TabType_values :: "TabType list" where
  "TabType_values = [''structure'', ''auth'', ''error'', ''middleware'', ''routing'']"

record ComparisonEntry =
  title :: string
  nextjs :: string
  hono :: string

text \<open>
  The object literal \<open>comparisons\<close>, key by key in the order of the source:
  \<open>comparisons_at\<close> is the lookup among the properties the object owns. Reading
  \<open>comparisons[k]\<close> for a key it does not own goes on to \<open>Object.prototype\<close>: for one of
  the names defined there the value is an object without the fields \<open>nextjs\<close> and
  \<open>hono\<close>, for every other key it is \<open>undefined\<close>.
\<close>

definition comparisons :: "(TabType \<times> ComparisonEntry) list" where
  "comparisons =
    [(''structure'',
        \<lparr>title = ''File Structure'',
         nextjs = ''New endpoint = create new file in nested folder'',
         hono = ''New endpoint = add one line of code''\<rparr>),
     (''auth'',
        \<lparr>title = ''Authentication Middleware'',
         nextjs = ''Import and call auth function in every route file'',
         hono = ''Define once as middleware, applies to all matched routes''\<rparr>),
     (''error'',
        \<lparr>title = ''Error Handling'',
         nextjs = ''Per-route try/catch, inconsistent formats possible'',
         hono = ''Global error handler, consistent response format''\<rparr>),
     (''middleware'',
        \<lparr>title = ''Middleware'',
         nextjs = ''Designed for pages, NOT suitable for API layer (official docs)'',
         hono = ''Perfect for API auth, logging, CORS, validation''\<rparr>),
     (''routing'',
        \<lparr>title = ''Route Registration'',
         nextjs = ''File-based, implicit from folder structure'',
         hono = ''Programmatic, explicit with app.get/post/etc''\<rparr>)]"

definition comparisons_at :: "TabType \<Rightarrow> ComparisonEntry option" where
  "comparisons_at k = map_of comparisons k"

definition Object_prototype_keys :: "string list" where
  "Object_prototype_keys =
    [''constructor'', ''__defineGetter__'', ''__defineSetter__'', ''hasOwnProperty'',
     ''__lookupGetter__'', ''__lookupSetter__'', ''isPrototypeOf'', ''propertyIsEnumerable'',
     ''toString'', ''valueOf'', ''__proto__'', ''toLocaleString'']"

text \<open>
  The two texts \<open>comparisons[k].nextjs\<close> and \<open>comparisons[k].hono\<close> as the page renders
  them: those of the entry; nothing for a value found on \<open>Object.prototype\<close>, whose two
  fields are \<open>undefined\<close>; and \<^const>\<open>None\<close> where \<open>comparisons[k]\<close> is \<open>undefined\<close> and
  reading a field of it throws.
\<close>

definition comparisons_texts :: "TabType \<Rightarrow> (string \<times> string) option" where
  "comparisons_texts k =
    (case comparisons_at k of
       Some e \<Rightarrow> Some (nextjs e, hono e)
     | None \<Rightarrow> if k \<in> set Object_prototype_keys then Some ([], []) else None)"

text \<open>
  \<open>BlockItem\<close> is the tagged union of the source: a tree block carries \<open>tree\<close> and
  \<open>title\<close>, a code block carries \<open>code\<close>, \<open>lang\<close> and \<open>title\<close>.
\<close>

datatype BlockItem =
    tree_item string string
  | code_item string string string

fun block_title :: "BlockItem \<Rightarrow> string" where
  "block_title (tree_item tree ttl) = ttl"
| "block_title (code_item code lang ttl) = ttl"

record Tab =
  tab_id :: TabType
  tab_label :: string

definition tabs :: "Tab list" where
  "tabs =
    [\<lparr>tab_id = ''structure'', tab_label = ''File Structure''\<rparr>,
     \<lparr>tab_id = ''routing'', tab_label = ''Route Registration''\<rparr>,
     \<lparr>tab_id = ''auth'', tab_label = ''Auth Middleware''\<rparr>,
     \<lparr>tab_id = ''error'', tab_label = ''Error Handling''\<rparr>,
     \<lparr>tab_id = ''middleware'', tab_label = ''Middleware''\<rparr>]"

text \<open>
  \<open>getBlocks\<close> closes over \<open>activeTab\<close>; here the topic is its argument. The \<open>switch\<close>
  compares with \<open>===\<close>, case by case in the order of the source, and its \<open>default\<close>
  branch returns the empty array.
\<close>

definition getBlocks :: "TabType \<Rightarrow> BlockItem list" where
  "getBlocks activeTab =
    (if activeTab = ''structure'' then
       [tree_item nextjsFileTree ''Next.js Route Handlers'',
        tree_item honoFileTree ''Hono Catch-All Handler'']
     else if activeTab = ''routing'' then
       [code_item nextjsRoutingCode ''typescript'' ''Next.js File-Based Routing'',
        code_item honoRoutingCode ''typescript'' ''Hono Programmatic Routing'']
     else if activeTab = ''auth'' then
       [code_item nextjsAuthCode ''typescript'' ''Next.js (Manual Per-Route)'',
        code_item honoAuthCode ''typescript'' ''Hono (Middleware Chain)'']
     else if activeTab = ''error'' then
       [code_item nextjsErrorCode ''typescript'' ''Next.js (Inconsistent)'',
        code_item honoErrorCode ''typescript'' ''Hono (Global Handler)'']
     else if activeTab = ''middleware'' then
       [code_item nextjsMiddlewareCode ''typescript'' ''Next.js Middleware'',
        code_item honoMiddlewareCode ''typescript'' ''Hono Middleware'']
     else [])"

section \<open>The leaf components\<close>

text \<open>
  What a component returns is a tree of elements: a text node, an element with its tag,
  its \<open>className\<close> and its children, or an element whose content is set through
  \<open>dangerouslySetInnerHTML\<close>.
\<close>

datatype vnode =
    Text string
  | Element string string "vnode list"
  | ElementHtml string string string

text \<open>\<open>FileTree({ tree, title })\<close>: no state and no effect.\<close>

definition FileTree :: "string \<Rightarrow> string \<Rightarrow> vnode" where
  "FileTree tree ttl =
    Element ''div'' ''rounded-lg overflow-hidden border border-[#3c3c3c] bg-[#1e1e1e]''
      [Element ''div'' ''px-4 py-2 bg-[#2d2d2d] border-b border-[#3c3c3c]''
         [Element ''span'' ''text-xs text-[#808080] font-mono'' [Text ttl]],
       Element ''div'' ''px-4 py-3''
         [Element ''pre''
            ''text-sm font-mono text-[#d4d4d4] whitespace-pre overflow-x-auto leading-relaxed''
            [Text tree]]]"

text \<open>
  The elements with a given tag, in document order; used to state what a component shows.
\<close>

fun elements_of :: "string \<Rightarrow> vnode \<Rightarrow> vnode list" where
  "elements_of tag (Text t) = []"
| "elements_of tag (Element g cls kids) =
     (if g = tag then [Element g cls kids] else []) @ concat (map (elements_of tag) kids)"
| "elements_of tag (ElementHtml g cls h) = (if g = tag then [ElementHtml g cls h] else [])"

text \<open>
  \<open>codeToHtml\<close> is the highlighter of the \<open>shiki\<close> package, which is not part of the
  repository: it is a parameter of the model. It is called with the code and the options
  \<open>{ lang, theme }\<close> and returns a promise, which is fulfilled with the markup or
  rejected.
\<close>

datatype outcome = Resolved string | Rejected

type_synonym highlighter = "string \<Rightarrow> string \<Rightarrow> string \<Rightarrow> outcome"

text \<open>
  A mounted \<open>CodeBlock\<close>: its current props, the state cell \<open>html\<close> of
  \<open>useState<string>('')\<close>, and the calls of \<open>codeToHtml\<close> its effect has made whose
  promise has not settled yet, oldest first. Each pending call keeps the code and the
  language it was made with; the continuation of every one of them is \<open>setHtml\<close>.
  The last field lists the calls whose promise was rejected, oldest first: \<open>.then(setHtml)\<close>
  passes the rejection on to a promise that nothing handles, which the runtime reports as
  an unhandled rejection.
\<close>

record CodeBlock_instance =
  props_code :: string
  props_lang :: string
  props_title :: "string option"
  html :: string
  pending :: "(string \<times> string) list"
  unhandled :: "(string \<times> string) list"

text \<open>
  Mounting renders with the empty \<open>html\<close> and runs the effect once. A later render runs
  the effect again exactly when \<open>code\<close> or \<open>lang\<close> differs from the previous render (the
  dependency array \<open>[code, lang]\<close>). The effect returns no cleanup function, so the calls
  made earlier stay pending with their continuation.
\<close>

definition CodeBlock_mount :: "string \<Rightarrow> string \<Rightarrow> string option \<Rightarrow> CodeBlock_instance" where
  "CodeBlock_mount c l t =
    \<lparr>props_code = c, props_lang = l, props_title = t, html = [], pending = [(c, l)],
     unhandled = []\<rparr>"

definition CodeBlock_update ::
  "CodeBlock_instance \<Rightarrow> string \<Rightarrow> string \<Rightarrow> string option \<Rightarrow> CodeBlock_instance" where
  "CodeBlock_update cb c l t =
    cb\<lparr>props_code := c, props_lang := l, props_title := t,
       pending := (if c = props_code cb \<and> l = props_lang cb then pending cb
                   else pending cb @ [(c, l)])\<rparr>"

text \<open>
  The promise of the pending call number \<open>i\<close> settles: \<open>.then(setHtml)\<close> stores the
  markup when it is fulfilled, whatever the props of the block are by then. There is no
  rejection handler and no \<open>catch\<close>: a rejected promise leaves the state cell alone and
  its rejection stays unhandled.
\<close>

definition CodeBlock_settle :: "highlighter \<Rightarrow> CodeBlock_instance \<Rightarrow> nat \<Rightarrow> CodeBlock_instance" where
  "CodeBlock_settle hl cb i =
    (if i < length (pending cb) then
       (case hl (fst (pending cb ! i)) (snd (pending cb ! i)) ''dark-plus'' of
          Resolved h \<Rightarrow>
            cb\<lparr>html := h, pending := take i (pending cb) @ drop (Suc i) (pending cb)\<rparr>
        | Rejected \<Rightarrow>
            cb\<lparr>pending := take i (pending cb) @ drop (Suc i) (pending cb),
               unhandled := unhandled cb @ [pending cb ! i]\<rparr>)
     else cb)"

text \<open>
  The title bar is rendered by \<open>{title && (...)}\<close>: not for a missing title and not for
  the empty string.
\<close>

definition CodeBlock_view :: "string option \<Rightarrow> string \<Rightarrow> vnode" where
  "CodeBlock_view t h =
    Element ''div'' ''rounded-lg overflow-hidden border border-[#3c3c3c] bg-[#1e1e1e]''
      ((case t of
          None \<Rightarrow> []
        | Some ttl \<Rightarrow>
            if ttl = [] then []
            else [Element ''div'' ''px-4 py-2 bg-[#2d2d2d] border-b border-[#3c3c3c]''
                    [Element ''span'' ''text-xs text-[#808080] font-mono'' [Text ttl]]]) @
       [Element ''div'' ''overflow-x-auto''
          [ElementHtml ''div''
             ''[&>pre]:!bg-transparent [&>pre]:!m-0 [&>pre]:px-4 [&>pre]:py-3 [&>pre]:!leading-relaxed [&_code]:!block [&_code]:!text-[13px] [&_code]:font-mono''
             h]])"

section \<open>The page\<close>

text \<open>
  The blocks of the active topic are rendered by \<open>blocks.map\<close> with \<open>key={index}\<close>: a tree
  block as a \<open>FileTree\<close>, a code block as a \<open>CodeBlock\<close>. Between two renders a child at
  the same index and of the same component keeps its instance and receives the new props;
  otherwise the old child is unmounted and a new one is mounted. A promise that settles
  for an unmounted \<open>CodeBlock\<close> updates nothing that is shown, so the pending calls of a
  child, and the record of its rejected ones, leave the model with it.
\<close>

datatype child =
    FileTree_child string string
  | CodeBlock_child CodeBlock_instance

fun update_child :: "child option \<Rightarrow> BlockItem \<Rightarrow> child" where
  "update_child (Some (CodeBlock_child cb)) (code_item c l t) =
     CodeBlock_child (CodeBlock_update cb c l (Some t))"
| "update_child old (code_item c l t) = CodeBlock_child (CodeBlock_mount c l (Some t))"
| "update_child old (tree_item tr t) = FileTree_child tr t"

fun reconcile :: "child list \<Rightarrow> BlockItem list \<Rightarrow> child list" where
  "reconcile old [] = []"
| "reconcile [] (b # bs) = update_child None b # reconcile [] bs"
| "reconcile (c # cs) (b # bs) = update_child (Some c) b # reconcile cs bs"

text \<open>
  The state of \<open>App\<close> is the cell \<open>activeTab\<close> of \<open>useState<TabType>('structure')\<close>,
  together with the children its last render left mounted. The sections of the page that
  do not depend on \<open>activeTab\<close> (overview, figures, the two code blocks of the RPC
  section, summary) are constant and stay outside the model.
\<close>

record App_state =
  activeTab :: TabType
  children :: "child list"

definition App_init :: App_state where
  "App_init = \<lparr>activeTab = ''structure'', children = reconcile [] (getBlocks ''structure'')\<rparr>"

definition setActiveTab :: "TabType \<Rightarrow> App_state \<Rightarrow> App_state" where
  "setActiveTab t s = \<lparr>activeTab = t, children = reconcile (children s) (getBlocks t)\<rparr>"

text \<open>
  Two things happen to the page: the user clicks the button of the tab number \<open>k\<close>
  (\<open>onClick={() => setActiveTab(tab.id)}\<close>), or the promise of the pending call number
  \<open>i\<close> of the child number \<open>j\<close> settles.
\<close>

datatype event = Click nat | Settle nat nat

fun step :: "highlighter \<Rightarrow> App_state \<Rightarrow> event \<Rightarrow> App_state" where
  "step hl s (Click k) = (if k < length tabs then setActiveTab (tab_id (tabs ! k)) s else s)"
| "step hl s (Settle j i) =
     (if j < length (children s) then
        (case children s ! j of
           CodeBlock_child cb \<Rightarrow>
             s\<lparr>children := (children s)[j := CodeBlock_child (CodeBlock_settle hl cb i)]\<rparr>
         | FileTree_child tr t \<Rightarrow> s)
      else s)"

definition run :: "highlighter \<Rightarrow> event list \<Rightarrow> App_state" where
  "run hl es = foldl (step hl) App_init es"

text \<open>
  What the comparison section shows: the tab buttons with the active one marked, the two
  summary texts \<open>comparisons[activeTab].nextjs\<close> and \<open>comparisons[activeTab].hono\<close>, and
  the rendered children. Reading a property of \<open>undefined\<close> throws a \<open>TypeError\<close>.
  A \<open>FileTree\<close> shows its props; a \<open>CodeBlock\<close> shows its title and whatever markup its
  state cell \<open>html\<close> holds at that moment.
\<close>

datatype error = TypeError

fun child_view :: "child \<Rightarrow> vnode" where
  "child_view (FileTree_child tr t) = FileTree tr t"
| "child_view (CodeBlock_child cb) = CodeBlock_view (props_title cb) (html cb)"

text \<open>
  The block a mounted child was last rendered from, that is its props, and the markup
  its state cell holds (none for a \<open>FileTree\<close>).
\<close>

fun child_html :: "child \<Rightarrow> string" where
  "child_html (FileTree_child tr t) = []"
| "child_html (CodeBlock_child cb) = html cb"

fun child_block :: "child \<Rightarrow> BlockItem" where
  "child_block (FileTree_child tr t) = tree_item tr t"
| "child_block (CodeBlock_child cb) =
     code_item (props_code cb) (props_lang cb) (case props_title cb of None \<Rightarrow> [] | Some t \<Rightarrow> t)"

record Comparison_view =
  buttons :: "(string \<times> bool) list"
  nextjs_text :: string
  hono_text :: string
  block_views :: "vnode list"

definition App_view :: "App_state \<Rightarrow> error + Comparison_view" where
  "App_view s =
    (case comparisons_texts (activeTab s) of
       None \<Rightarrow> Inl TypeError
     | Some (n, h) \<Rightarrow>
         Inr \<lparr>buttons = map (\<lambda>tab. (tab_label tab, activeTab s = tab_id tab)) tabs,
              nextjs_text = n,
              hono_text = h,
              block_views = map child_view (children s)\<rparr>)"

section \<open>Notions used to state the properties\<close>

text \<open>
  A highlighter to run the model on. It knows the languages of a small bundle and the one
  theme, rejects every other request, and wraps the code without styling it.
\<close>

definition bundle_highlighter :: highlighter where
  "bundle_highlighter c l th =
    (if l \<in> set [''typescript'', ''javascript'', ''text''] \<and> th = ''dark-plus''
     then Resolved (''<pre><code>'' @ c @ ''</code></pre>'')
     else Rejected)"

text \<open>
  The call made for the current props of a code block is still pending, and it is the
  newest pending call.
\<close>

definition call_pending :: "CodeBlock_instance \<Rightarrow> bool" where
  "call_pending cb =
    (pending cb \<noteq> [] \<and> last (pending cb) = (props_code cb, props_lang cb))"

fun child_pending :: "child \<Rightarrow> bool" where
  "child_pending (FileTree_child tr t) = True"
| "child_pending (CodeBlock_child cb) = call_pending cb"

text \<open>
  Pending calls settle one after the other, each given by its position at that moment,
  and none of them is the newest one; \<^const>\<open>None\<close> when a position names the newest call
  or no call.
\<close>

fun settle_older :: "highlighter \<Rightarrow> CodeBlock_instance \<Rightarrow> nat list \<Rightarrow> CodeBlock_instance option" where
  "settle_older hl cb [] = Some cb"
| "settle_older hl cb (k # ks) =
     (if Suc k < length (pending cb) then settle_older hl (CodeBlock_settle hl cb k) ks
      else None)"

text \<open>
  The two texts the summary panel shows (none when the render throws), and the two texts
  of the entry of a topic.
\<close>

definition shown_summary :: "App_state \<Rightarrow> (string \<times> string) option" where
  "shown_summary s =
    (case App_view s of Inl err \<Rightarrow> None | Inr v \<Rightarrow> Some (nextjs_text v, hono_text v))"

definition summary_of :: "TabType \<Rightarrow> (string \<times> string) option" where
  "summary_of t = map_option (\<lambda>e. (nextjs e, hono e)) (comparisons_at t)"

text \<open>
  The blocks the mounted children were last rendered from: the props they hold, not what
  they display. What a block displays is its entry in \<open>block_views\<close>, which for a code
  block also depends on the markup in its state cell.
\<close>

definition mounted_blocks :: "App_state \<Rightarrow> BlockItem list" where
  "mounted_blocks s = map child_block (children s)"

text \<open>What is displayed for a block whose state cell holds the markup \<open>h\<close>.\<close>

fun block_view :: "BlockItem \<Rightarrow> string \<Rightarrow> vnode" where
  "block_view (tree_item tr t) h = FileTree tr t"
| "block_view (code_item c l t) h = CodeBlock_view (Some t) h"

text \<open>The grid of blocks that is displayed, and the titles its title bars show.\<close>

definition shown_block_views :: "App_state \<Rightarrow> vnode list" where
  "shown_block_views s = (case App_view s of Inl err \<Rightarrow> [] | Inr v \<Rightarrow> block_views v)"

definition shown_titles :: "App_state \<Rightarrow> vnode list list" where
  "shown_titles s = map (elements_of ''span'') (shown_block_views s)"

section \<open>Facts about the content table\<close>

lemma TabType_cases:
  "t \<in> set TabType_values \<Longrightarrow>
   t = ''structure'' \<or> t = ''auth'' \<or> t = ''error'' \<or> t = ''middleware'' \<or> t = ''routing''"
  by (simp add: TabType_values_def)

lemma comparisons_at_simps:
  "comparisons_at ''structure'' =
    Some \<lparr>title = ''File Structure'',
          nextjs = ''New endpoint = create new file in nested folder'',
          hono = ''New endpoint = add one line of code''\<rparr>"
  "comparisons_at ''auth'' =
    Some \<lparr>title = ''Authentication Middleware'',
          nextjs = ''Import and call auth function in every route file'',
          hono = ''Define once as middleware, applies to all matched routes''\<rparr>"
  "comparisons_at ''error'' =
    Some \<lparr>title = ''Error Handling'',
          nextjs = ''Per-route try/catch, inconsistent formats possible'',
          hono = ''Global error handler, consistent response format''\<rparr>"
  "comparisons_at ''middleware'' =
    Some \<lparr>title = ''Middleware'',
          nextjs = ''Designed for pages, NOT suitable for API layer (official docs)'',
          hono = ''Perfect for API auth, logging, CORS, validation''\<rparr>"
  "comparisons_at ''routing'' =
    Some \<lparr>title = ''Route Registration'',
          nextjs = ''File-based, implicit from folder structure'',
          hono = ''Programmatic, explicit with app.get/post/etc''\<rparr>"
  by (simp_all add: comparisons_at_def comparisons_def)

lemma getBlocks_simps:
  "getBlocks ''structure'' =
    [tree_item nextjsFileTree ''Next.js Route Handlers'',
     tree_item honoFileTree ''Hono Catch-All Handler'']"
  "getBlocks ''routing'' =
    [code_item nextjsRoutingCode ''typescript'' ''Next.js File-Based Routing'',
     code_item honoRoutingCode ''typescript'' ''Hono Programmatic Routing'']"
  "getBlocks ''auth'' =
    [code_item nextjsAuthCode ''typescript'' ''Next.js (Manual Per-Route)'',
     code_item honoAuthCode ''typescript'' ''Hono (Middleware Chain)'']"
  "getBlocks ''error'' =
    [code_item nextjsErrorCode ''typescript'' ''Next.js (Inconsistent)'',
     code_item honoErrorCode ''typescript'' ''Hono (Global Handler)'']"
  "getBlocks ''middleware'' =
    [code_item nextjsMiddlewareCode ''typescript'' ''Next.js Middleware'',
     code_item honoMiddlewareCode ''typescript'' ''Hono Middleware'']"
  by (simp_all add: getBlocks_def)

lemma summary_of_inj:
  assumes "t1 \<in> set TabType_values" and "t2 \<in> set TabType_values"
    and "summary_of t1 = summary_of t2"
  shows "t1 = t2"
  using TabType_cases[OF assms(1)] TabType_cases[OF assms(2)] assms(3)
  by (elim disjE) (simp_all add: summary_of_def comparisons_at_simps)

lemma getBlocks_inj:
  assumes "t1 \<in> set TabType_values" and "t2 \<in> set TabType_values"
    and "getBlocks t1 = getBlocks t2"
  shows "t1 = t2"
  using TabType_cases[OF assms(1)] TabType_cases[OF assms(2)] assms(3)
  by (elim disjE) (simp_all add: getBlocks_simps)

lemma tab_ids:
  "map tab_id tabs = [''structure'', ''routing'', ''auth'', ''error'', ''middleware'']"
  by (simp add: tabs_def)

lemma tab_id_member:
  assumes "k < length tabs"
  shows "tab_id (tabs ! k) \<in> set TabType_values"
proof -
  have "tab_id (tabs ! k) = map tab_id tabs ! k"
    using assms by simp
  moreover have "map tab_id tabs ! k \<in> set (map tab_id tabs)"
    using assms by (metis length_map nth_mem)
  ultimately show ?thesis
    unfolding tab_ids by (auto simp: TabType_values_def)
qed

text \<open>The code texts of the topics that follow each other in the examples differ.\<close>

lemma nextjs_routing_auth: "nextjsRoutingCode \<noteq> nextjsAuthCode"
  by (simp add: nextjsRoutingCode_def nextjsAuthCode_def)

lemma nextjs_auth_error: "nextjsAuthCode \<noteq> nextjsErrorCode"
  by (simp add: nextjsAuthCode_def nextjsErrorCode_def)

lemma nextjs_routing_error: "nextjsRoutingCode \<noteq> nextjsErrorCode"
  by (simp add: nextjsRoutingCode_def nextjsErrorCode_def)

lemma hono_routing_auth: "honoRoutingCode \<noteq> honoAuthCode"
  by (simp add: honoRoutingCode_def honoAuthCode_def)

lemma hono_auth_error: "honoAuthCode \<noteq> honoErrorCode"
  by (simp add: honoAuthCode_def honoErrorCode_def)

section \<open>Facts about rendering and the events\<close>

lemma update_child_block: "child_block (update_child old b) = b"
  by (induction old b rule: update_child.induct)
     (auto simp: CodeBlock_update_def CodeBlock_mount_def)

lemma reconcile_blocks: "map child_block (reconcile cs bs) = bs"
  by (induction cs bs rule: reconcile.induct) (auto simp: update_child_block)

lemma update_child_idem: "update_child (Some (update_child old b)) b = update_child old b"
  by (induction old b rule: update_child.induct)
     (auto simp: CodeBlock_update_def CodeBlock_mount_def)

lemma reconcile_idem: "reconcile (reconcile cs bs) bs = reconcile cs bs"
  by (induction cs bs rule: reconcile.induct) (auto simp: update_child_idem)

lemma setActiveTab_idem: "setActiveTab t (setActiveTab t s) = setActiveTab t s"
  by (simp add: setActiveTab_def reconcile_idem)

lemma step_activeTab_member:
  "activeTab s \<in> set TabType_values \<Longrightarrow> activeTab (step hl s e) \<in> set TabType_values"
  by (cases e) (auto simp: setActiveTab_def tab_id_member split: child.splits)

lemma foldl_activeTab_member:
  "activeTab s \<in> set TabType_values \<Longrightarrow>
   activeTab (foldl (step hl) s es) \<in> set TabType_values"
  by (induction es arbitrary: s) (simp_all add: step_activeTab_member)

lemma run_activeTab_member: "activeTab (run hl es) \<in> set TabType_values"
  unfolding run_def
  by (rule foldl_activeTab_member) (simp add: App_init_def TabType_values_def)

lemma settle_keeps_props:
  "props_code (CodeBlock_settle hl cb k) = props_code cb \<and>
   props_lang (CodeBlock_settle hl cb k) = props_lang cb \<and>
   props_title (CodeBlock_settle hl cb k) = props_title cb"
  by (simp add: CodeBlock_settle_def split: outcome.splits)

lemma settle_block:
  "child_block (CodeBlock_child (CodeBlock_settle hl cb i)) = child_block (CodeBlock_child cb)"
  by (simp add: settle_keeps_props)

lemma step_blocks:
  assumes inv: "map child_block (children s) = getBlocks (activeTab s)"
  shows "map child_block (children (step hl s e)) = getBlocks (activeTab (step hl s e))"
proof (cases e)
  case (Click k)
  then show ?thesis
    using inv by (simp add: setActiveTab_def reconcile_blocks)
next
  case (Settle j i)
  show ?thesis
  proof (cases "j < length (children s)")
    case False
    with Settle inv show ?thesis by simp
  next
    case True
    show ?thesis
    proof (cases "children s ! j")
      case (FileTree_child tr t)
      with Settle True inv show ?thesis by simp
    next
      case (CodeBlock_child cb)
      have "map child_block ((children s)[j := CodeBlock_child (CodeBlock_settle hl cb i)])
            = (map child_block (children s))[j := child_block (CodeBlock_child cb)]"
        by (simp only: map_update settle_block)
      also have "\<dots> = map child_block (children s)"
        using True CodeBlock_child by (metis list_update_id map_update)
      finally show ?thesis
        using Settle True CodeBlock_child inv by simp
    qed
  qed
qed

lemma foldl_blocks:
  "map child_block (children s) = getBlocks (activeTab s) \<Longrightarrow>
   map child_block (children (foldl (step hl) s es)) =
     getBlocks (activeTab (foldl (step hl) s es))"
  by (induction es arbitrary: s) (simp_all add: step_blocks)

lemma run_blocks: "map child_block (children (run hl es)) = getBlocks (activeTab (run hl es))"
  unfolding run_def by (rule foldl_blocks) (simp add: App_init_def reconcile_blocks)

lemma update_child_pending:
  "(case old of None \<Rightarrow> True | Some c \<Rightarrow> child_pending c) \<Longrightarrow>
   child_pending (update_child old b)"
  by (induction old b rule: update_child.induct)
     (auto simp: call_pending_def CodeBlock_update_def CodeBlock_mount_def)

lemma reconcile_pending:
  "list_all child_pending cs \<Longrightarrow> list_all child_pending (reconcile cs bs)"
  by (induction cs bs rule: reconcile.induct) (auto simp: update_child_pending)

lemma clicks_pending:
  "list_all child_pending (children s) \<Longrightarrow>
   list_all child_pending (children (foldl (step hl) s (map Click ks)))"
  by (induction ks arbitrary: s) (auto simp: setActiveTab_def reconcile_pending)

lemma init_pending: "list_all child_pending (children App_init)"
  by (simp add: App_init_def getBlocks_def)

lemma last_remove_older:
  "Suc k < length xs \<Longrightarrow>
   take k xs @ drop (Suc k) xs \<noteq> [] \<and> last (take k xs @ drop (Suc k) xs) = last xs"
  by (induction xs arbitrary: k) (auto simp: take_Cons' drop_Cons')

lemma settle_keeps_pending:
  assumes "call_pending cb" and "Suc k < length (pending cb)"
  shows "call_pending (CodeBlock_settle hl cb k)"
  using assms last_remove_older[OF assms(2)]
  by (auto simp: call_pending_def CodeBlock_settle_def split: outcome.splits)

lemma settle_older_keeps:
  "settle_older hl cb ks = Some cb' \<Longrightarrow> call_pending cb \<Longrightarrow>
   call_pending cb' \<and> props_code cb' = props_code cb \<and> props_lang cb' = props_lang cb"
proof (induction ks arbitrary: cb)
  case Nil
  then show ?case by simp
next
  case (Cons k ks)
  from Cons.prems(1) have k: "Suc k < length (pending cb)"
    and rest: "settle_older hl (CodeBlock_settle hl cb k) ks = Some cb'"
    by (auto split: if_splits)
  from Cons.IH[OF rest settle_keeps_pending[OF Cons.prems(2) k]]
    settle_keeps_props[of hl cb k]
  show ?case by simp
qed

lemma settle_last:
  assumes "call_pending cb" and "length (pending cb) = 1"
    and "hl (props_code cb) (props_lang cb) ''dark-plus'' = Resolved h"
  shows "html (CodeBlock_settle hl cb 0) = h \<and> pending (CodeBlock_settle hl cb 0) = []"
proof -
  from assms(2) obtain x where x: "pending cb = [x]"
    by (cases "pending cb") auto
  with assms(1) have "x = (props_code cb, props_lang cb)"
    by (simp add: call_pending_def)
  with x assms(3) show ?thesis
    by (simp add: CodeBlock_settle_def)
qed

text \<open>
  The page after the three clicks routing, auth, error with no promise settled in
  between: both code blocks have kept their instance and hold three pending calls.
\<close>

lemma three_clicks:
  "run hl [Click 1, Click 2, Click 3] =
    \<lparr>activeTab = ''error'',
     children =
       [CodeBlock_child
          \<lparr>props_code = nextjsErrorCode, props_lang = ''typescript'',
           props_title = Some ''Next.js (Inconsistent)'', html = [],
           pending = [(nextjsRoutingCode, ''typescript''), (nextjsAuthCode, ''typescript''),
                      (nextjsErrorCode, ''typescript'')], unhandled = []\<rparr>,
        CodeBlock_child
          \<lparr>props_code = honoErrorCode, props_lang = ''typescript'',
           props_title = Some ''Hono (Global Handler)'', html = [],
           pending = [(honoRoutingCode, ''typescript''), (honoAuthCode, ''typescript''),
                      (honoErrorCode, ''typescript'')], unhandled = []\<rparr>]\<rparr>"
  using nextjs_routing_auth[symmetric] nextjs_auth_error[symmetric]
    hono_routing_auth[symmetric] hono_auth_error[symmetric]
  by (simp add: run_def tabs_def setActiveTab_def App_init_def getBlocks_simps
      CodeBlock_update_def CodeBlock_mount_def)

section \<open>Facts about what is displayed\<close>

lemma comparisons_texts_topic:
  assumes "t \<in> set TabType_values"
  shows "comparisons_texts t = summary_of t" and "comparisons_texts t \<noteq> None"
  using TabType_cases[OF assms]
  by (elim disjE; simp add: comparisons_texts_def summary_of_def comparisons_at_simps)+

lemma shown_summary_texts: "shown_summary s = comparisons_texts (activeTab s)"
  by (simp add: shown_summary_def App_view_def split: option.splits prod.splits)

lemma shown_block_views_topic:
  assumes "activeTab s \<in> set TabType_values"
  shows "shown_block_views s = map child_view (children s)"
proof (cases "comparisons_texts (activeTab s)")
  case None
  with comparisons_texts_topic(2)[OF assms] show ?thesis by simp
next
  case (Some p)
  then show ?thesis
    by (cases p) (simp add: shown_block_views_def App_view_def)
qed

lemma child_view_block_view: "child_view c = block_view (child_block c) (child_html c)"
  by (cases c) (simp_all add: CodeBlock_view_def split: option.splits)

lemma child_views_block_views:
  "map child_view cs = map2 block_view (map child_block cs) (map child_html cs)"
  by (induction cs) (simp_all add: child_view_block_view)

lemma block_view_spans:
  "elements_of ''span'' (block_view (tree_item tr t) h) =
     [Element ''span'' ''text-xs text-[#808080] font-mono'' [Text t]]"
  "elements_of ''span'' (block_view (code_item c l t) h) =
     (if t = [] then [] else [Element ''span'' ''text-xs text-[#808080] font-mono'' [Text t]])"
  by (simp_all add: FileTree_def CodeBlock_view_def)

lemma step_settle_child:
  assumes "j < length (children s)" and "children s ! j = CodeBlock_child cb"
  shows "children (step hl s (Settle j i)) ! j = CodeBlock_child (CodeBlock_settle hl cb i)"
  using assms by simp

section \<open>The properties\<close>

text \<open>
  C3. For every topic of the enumeration (structure, routing, auth, error, middleware) the
  lookup in \<open>comparisons\<close> finds an entry, so that reading its fields does not fail, and
  \<open>getBlocks\<close> returns exactly two blocks.
\<close>

theorem lookups_total_on_topics:
  assumes "t \<in> set TabType_values"
  shows "(\<exists>e. comparisons_at t = Some e) \<and> length (getBlocks t) = 2"
  using TabType_cases[OF assms]
  by (elim disjE) (simp_all add: comparisons_at_simps getBlocks_simps)

theorem lookups_total_on_topics_witness:
  "''auth'' \<in> set TabType_values \<and>
   (\<exists>e. comparisons_at ''auth'' = Some e) \<and> length (getBlocks ''auth'') = 2"
proof -
  have mem: "''auth'' \<in> set TabType_values"
    by (simp add: TabType_values_def)
  from lookups_total_on_topics[OF mem] mem show ?thesis
    by (intro conjI) simp_all
qed

text \<open>
  C4. After the topic auth is selected, in any state of the page, the left block is
  titled \<open>Next.js (Manual Per-Route)\<close>, which contains \<open>Manual Per-Route\<close>, and the right
  block is titled \<open>Hono (Middleware Chain)\<close>, which contains \<open>Middleware Chain\<close>; these
  are the titles the two title bars display. After the topic structure is selected the
  page shows exactly two tree blocks, titled \<open>Next.js Route Handlers\<close> and
  \<open>Hono Catch-All Handler\<close>, in that order.
\<close>

theorem auth_and_structure_blocks:
  "map block_title (mounted_blocks (setActiveTab ''auth'' s)) =
     [''Next.js (Manual Per-Route)'', ''Hono (Middleware Chain)''] \<and>
   sublist ''Manual Per-Route'' (block_title (mounted_blocks (setActiveTab ''auth'' s) ! 0)) \<and>
   sublist ''Middleware Chain'' (block_title (mounted_blocks (setActiveTab ''auth'' s) ! 1)) \<and>
   mounted_blocks (setActiveTab ''structure'' s) =
     [tree_item nextjsFileTree ''Next.js Route Handlers'',
      tree_item honoFileTree ''Hono Catch-All Handler''] \<and>
   children (setActiveTab ''structure'' s) =
     [FileTree_child nextjsFileTree ''Next.js Route Handlers'',
      FileTree_child honoFileTree ''Hono Catch-All Handler''] \<and>
   shown_titles (setActiveTab ''auth'' s) =
     [[Element ''span'' ''text-xs text-[#808080] font-mono'' [Text ''Next.js (Manual Per-Route)'']],
      [Element ''span'' ''text-xs text-[#808080] font-mono'' [Text ''Hono (Middleware Chain)'']]] \<and>
   shown_block_views (setActiveTab ''structure'' s) =
     [FileTree nextjsFileTree ''Next.js Route Handlers'',
      FileTree honoFileTree ''Hono Catch-All Handler'']"
proof -
  have blocks: "mounted_blocks (setActiveTab t s) = getBlocks t" for t
    by (simp add: mounted_blocks_def setActiveTab_def reconcile_blocks)
  have left: "sublist ''Manual Per-Route'' ''Next.js (Manual Per-Route)''"
    unfolding sublist_def by (rule exI[of _ "''Next.js (''"], rule exI[of _ "'')''"]) simp
  have right: "sublist ''Middleware Chain'' ''Hono (Middleware Chain)''"
    unfolding sublist_def by (rule exI[of _ "''Hono (''"], rule exI[of _ "'')''"]) simp
  have trees: "children (setActiveTab ''structure'' s) =
     [FileTree_child nextjsFileTree ''Next.js Route Handlers'',
      FileTree_child honoFileTree ''Hono Catch-All Handler'']"
  proof (cases "children s")
    case Nil
    then show ?thesis by (simp add: setActiveTab_def getBlocks_simps)
  next
    case (Cons c cs)
    then show ?thesis by (cases cs) (simp_all add: setActiveTab_def getBlocks_simps)
  qed
  have views: "shown_block_views (setActiveTab t s) =
      map2 block_view (getBlocks t) (map child_html (children (setActiveTab t s)))"
    if "t \<in> set TabType_values" for t
  proof -
    have "activeTab (setActiveTab t s) \<in> set TabType_values"
      using that by (simp add: setActiveTab_def)
    from shown_block_views_topic[OF this]
    show ?thesis
      using blocks[of t] by (simp add: child_views_block_views mounted_blocks_def)
  qed
  have two: "\<exists>h0 h1. map child_html (children (setActiveTab ''auth'' s)) = [h0, h1]"
  proof -
    have "length (map child_html (children (setActiveTab ''auth'' s))) =
        length (mounted_blocks (setActiveTab ''auth'' s))"
      by (simp add: mounted_blocks_def)
    also have "\<dots> = Suc (Suc 0)"
      by (simp add: blocks getBlocks_simps)
    finally show ?thesis
      by (auto simp: length_Suc_conv)
  qed
  have titles: "shown_titles (setActiveTab ''auth'' s) =
     [[Element ''span'' ''text-xs text-[#808080] font-mono'' [Text ''Next.js (Manual Per-Route)'']],
      [Element ''span'' ''text-xs text-[#808080] font-mono'' [Text ''Hono (Middleware Chain)'']]]"
  proof -
    from two obtain h0 h1
      where "map child_html (children (setActiveTab ''auth'' s)) = [h0, h1]"
      by (elim exE)
    then show ?thesis
      by (simp add: shown_titles_def views TabType_values_def getBlocks_simps block_view_spans
          del: block_view.simps)
  qed
  have grid: "shown_block_views (setActiveTab ''structure'' s) =
     [FileTree nextjsFileTree ''Next.js Route Handlers'',
      FileTree honoFileTree ''Hono Catch-All Handler'']"
    using trees by (simp add: views TabType_values_def getBlocks_simps)
  show ?thesis
    using left right trees titles grid by (simp add: blocks getBlocks_simps)
qed

text \<open>
  C5. The active topic is \<open>structure\<close> when the page loads, which is the first tab and the
  first member of the enumeration. A settling promise leaves it unchanged, a click on the
  tab number \<open>k\<close> sets it to the topic of that tab, and in every state the page can reach
  it is a member of the enumeration.
\<close>

theorem activeTab_lifecycle:
  "activeTab App_init = ''structure'' \<and>
   tab_id (hd tabs) = ''structure'' \<and>
   hd TabType_values = ''structure'' \<and>
   activeTab (step hl s (Settle j i)) = activeTab s \<and>
   activeTab (step hl s (Click k)) = (if k < length tabs then tab_id (tabs ! k) else activeTab s) \<and>
   activeTab (run hl es) \<in> set TabType_values"
proof -
  have "activeTab (step hl s (Settle j i)) = activeTab s"
    by (simp split: child.splits)
  moreover have "activeTab (step hl s (Click k)) =
      (if k < length tabs then tab_id (tabs ! k) else activeTab s)"
    by (simp add: setActiveTab_def)
  ultimately show ?thesis
    using run_activeTab_member[of hl es]
    by (simp add: App_init_def tabs_def TabType_values_def)
qed

text \<open>
  C6. Selecting a topic twice in a row leaves the page as selecting it once does: the
  state, hence the summary texts, the blocks and everything the comparison section shows,
  is the same. This holds for every topic and from every state.
\<close>

theorem selection_idempotent:
  "setActiveTab t (setActiveTab t s) = setActiveTab t s \<and>
   App_view (setActiveTab t (setActiveTab t s)) = App_view (setActiveTab t s) \<and>
   shown_summary (setActiveTab t (setActiveTab t s)) = shown_summary (setActiveTab t s) \<and>
   mounted_blocks (setActiveTab t (setActiveTab t s)) = mounted_blocks (setActiveTab t s) \<and>
   step hl (step hl s (Click k)) (Click k) = step hl s (Click k)"
  by (simp add: setActiveTab_idem)

text \<open>
  C8. \<open>FileTree\<close> puts the tree text, unchanged, as the only child of its one \<open>pre\<close>
  element, whose class list holds \<open>whitespace-pre\<close>; the title goes unchanged into the one
  \<open>span\<close>. The component is defined for every text and has no failing branch.
\<close>

theorem FileTree_verbatim:
  "elements_of ''pre'' (FileTree tree ttl) =
     [Element ''pre''
        ''text-sm font-mono text-[#d4d4d4] whitespace-pre overflow-x-auto leading-relaxed''
        [Text tree]] \<and>
   sublist ''whitespace-pre''
     ''text-sm font-mono text-[#d4d4d4] whitespace-pre overflow-x-auto leading-relaxed'' \<and>
   elements_of ''span'' (FileTree tree ttl) =
     [Element ''span'' ''text-xs text-[#808080] font-mono'' [Text ttl]]"
proof -
  have "sublist ''whitespace-pre''
     ''text-sm font-mono text-[#d4d4d4] whitespace-pre overflow-x-auto leading-relaxed''"
    unfolding sublist_def
    by (rule exI[of _ "''text-sm font-mono text-[#d4d4d4] ''"],
        rule exI[of _ "'' overflow-x-auto leading-relaxed''"]) simp
  then show ?thesis
    by (simp add: FileTree_def)
qed

text \<open>
  C9. \<open>getBlocks\<close> returns the empty list, the value of its \<open>default\<close> branch, exactly for
  the strings outside the enumeration; for the active topic of every state the page can
  reach it returns a list that is not empty.
\<close>

theorem default_branch_unreachable:
  "(getBlocks t = []) = (t \<notin> set TabType_values) \<and>
   getBlocks (activeTab (run hl es)) \<noteq> []"
proof -
  have iff: "(getBlocks t = []) = (t \<notin> set TabType_values)" for t
    by (simp add: TabType_values_def getBlocks_def)
  from iff[of "activeTab (run hl es)"] run_activeTab_member[of hl es] iff[of t]
  show ?thesis by simp
qed

text \<open>
  C10, as the code has it. In every state the page can reach, the summary texts shown are
  those of \<open>comparisons[activeTab]\<close>, and the grid shows, position by position, the blocks
  of \<open>getBlocks()\<close> for the same \<open>activeTab\<close>: the kind of each block, its title and its
  tree text are those of that topic, and so are the code and the language its child
  holds. Only the markup inside a code block is not derived from \<open>activeTab\<close>: it is
  whatever the state cell of the child holds. No two topics share their summary texts or
  their blocks, so the topic of the summary and the topic of the blocks are the same one.
\<close>

theorem summary_and_block_props_same_topic:
  "activeTab (run hl es) \<in> set TabType_values \<and>
   shown_summary (run hl es) = summary_of (activeTab (run hl es)) \<and>
   shown_summary (run hl es) \<noteq> None \<and>
   mounted_blocks (run hl es) = getBlocks (activeTab (run hl es)) \<and>
   length (children (run hl es)) = length (getBlocks (activeTab (run hl es))) \<and>
   shown_block_views (run hl es) =
     map2 block_view (getBlocks (activeTab (run hl es))) (map child_html (children (run hl es))) \<and>
   (\<forall>t1\<in>set TabType_values. \<forall>t2\<in>set TabType_values.
      shown_summary (run hl es) = summary_of t1 \<and> mounted_blocks (run hl es) = getBlocks t2
      \<longrightarrow> t1 = t2)"
proof -
  let ?s = "run hl es"
  have mem: "activeTab ?s \<in> set TabType_values"
    by (rule run_activeTab_member)
  have summary: "shown_summary ?s = summary_of (activeTab ?s)"
    using comparisons_texts_topic(1)[OF mem] by (simp add: shown_summary_texts)
  have some: "shown_summary ?s \<noteq> None"
    using comparisons_texts_topic(2)[OF mem] by (simp add: shown_summary_texts)
  have blocks: "mounted_blocks ?s = getBlocks (activeTab ?s)"
    unfolding mounted_blocks_def by (rule run_blocks)
  have len: "length (children ?s) = length (getBlocks (activeTab ?s))"
    using blocks by (metis length_map mounted_blocks_def)
  have views: "shown_block_views ?s =
      map2 block_view (getBlocks (activeTab ?s)) (map child_html (children ?s))"
    using shown_block_views_topic[OF mem] run_blocks[of hl es]
    by (simp add: child_views_block_views)
  have "t1 = t2"
    if "t1 \<in> set TabType_values" and "t2 \<in> set TabType_values"
      and "shown_summary ?s = summary_of t1" and "mounted_blocks ?s = getBlocks t2" for t1 t2
  proof -
    from that(3) summary have "summary_of (activeTab ?s) = summary_of t1" by simp
    then have "activeTab ?s = t1" by (rule summary_of_inj[OF mem that(1)])
    moreover from that(4) blocks have "getBlocks (activeTab ?s) = getBlocks t2" by simp
    then have "activeTab ?s = t2" by (rule getBlocks_inj[OF mem that(2)])
    ultimately show ?thesis by simp
  qed
  with mem summary some blocks len views show ?thesis by blast
qed

theorem summary_and_block_props_same_topic_witness:
  "''auth'' \<in> set TabType_values \<and>
   shown_summary (run bundle_highlighter [Click 2, Settle 0 0]) = summary_of ''auth'' \<and>
   mounted_blocks (run bundle_highlighter [Click 2, Settle 0 0]) =
     getBlocks (activeTab (run bundle_highlighter [Click 2, Settle 0 0])) \<and>
   activeTab (run bundle_highlighter [Click 2, Settle 0 0]) = ''auth''"
proof -
  let ?s = "run bundle_highlighter [Click 2, Settle 0 0]"
  note all = summary_and_block_props_same_topic[of bundle_highlighter "[Click 2, Settle 0 0]"]
  have mem: "''auth'' \<in> set TabType_values"
    by (simp add: TabType_values_def)
  have active: "activeTab ?s = ''auth''"
    by (simp add: run_def tabs_def setActiveTab_def App_init_def getBlocks_simps
        split: child.splits)
  from all have shown: "shown_summary ?s = summary_of (activeTab ?s)"
    and blocks: "mounted_blocks ?s = getBlocks (activeTab ?s)"
    and same: "\<forall>t1\<in>set TabType_values. \<forall>t2\<in>set TabType_values.
      shown_summary ?s = summary_of t1 \<and> mounted_blocks ?s = getBlocks t2 \<longrightarrow> t1 = t2"
    by blast+
  from shown active have s1: "shown_summary ?s = summary_of ''auth''" by simp
  from blocks active have s2: "mounted_blocks ?s = getBlocks ''auth''" by simp
  from same mem s1 s2 have "''auth'' = ''auth''" by blast
  with mem s1 blocks active show ?thesis by simp
qed

text \<open>
  The claim C10 as the specification states it fails for what a code block displays. The
  topic routing is selected, the call of its left block is fulfilled, and the topic auth
  is selected. The summary shown is that of auth and both title bars are those of auth,
  but the left block displays the markup of the routing code, which is not what the
  highlighter returns for the auth code; the right block displays no markup.
\<close>

theorem stale_markup_under_new_summary_counterexample:
  "shown_summary (run bundle_highlighter [Click 1, Settle 0 0, Click 2]) = summary_of ''auth'' \<and>
   shown_block_views (run bundle_highlighter [Click 1, Settle 0 0, Click 2]) =
     [CodeBlock_view (Some ''Next.js (Manual Per-Route)'')
        (''<pre><code>'' @ nextjsRoutingCode @ ''</code></pre>''),
      CodeBlock_view (Some ''Hono (Middleware Chain)'') []] \<and>
   bundle_highlighter nextjsRoutingCode ''typescript'' ''dark-plus'' =
     Resolved (''<pre><code>'' @ nextjsRoutingCode @ ''</code></pre>'') \<and>
   bundle_highlighter nextjsAuthCode ''typescript'' ''dark-plus'' \<noteq>
     Resolved (''<pre><code>'' @ nextjsRoutingCode @ ''</code></pre>'')"
proof -
  let ?s = "run bundle_highlighter [Click 1, Settle 0 0, Click 2]"
  have state: "?s =
     \<lparr>activeTab = ''auth'',
      children =
        [CodeBlock_child
           \<lparr>props_code = nextjsAuthCode, props_lang = ''typescript'',
            props_title = Some ''Next.js (Manual Per-Route)'',
            html = ''<pre><code>'' @ nextjsRoutingCode @ ''</code></pre>'',
            pending = [(nextjsAuthCode, ''typescript'')], unhandled = []\<rparr>,
         CodeBlock_child
           \<lparr>props_code = honoAuthCode, props_lang = ''typescript'',
            props_title = Some ''Hono (Middleware Chain)'', html = [],
            pending = [(honoRoutingCode, ''typescript''), (honoAuthCode, ''typescript'')],
            unhandled = []\<rparr>]\<rparr>"
    using nextjs_routing_auth[symmetric] hono_routing_auth[symmetric]
    by (simp add: run_def tabs_def setActiveTab_def App_init_def getBlocks_simps
        CodeBlock_update_def CodeBlock_mount_def CodeBlock_settle_def bundle_highlighter_def)
  have mem: "activeTab ?s \<in> set TabType_values"
    by (rule run_activeTab_member)
  have active: "activeTab ?s = ''auth''"
    using state by simp
  have "shown_summary ?s = summary_of (activeTab ?s)"
    using comparisons_texts_topic(1)[OF mem] by (simp only: shown_summary_texts)
  then have summary: "shown_summary ?s = summary_of ''auth''"
    by (simp only: active)
  have views: "shown_block_views ?s =
     [CodeBlock_view (Some ''Next.js (Manual Per-Route)'')
        (''<pre><code>'' @ nextjsRoutingCode @ ''</code></pre>''),
      CodeBlock_view (Some ''Hono (Middleware Chain)'') []]"
    unfolding shown_block_views_topic[OF mem] using state by simp
  show ?thesis
    using summary views nextjs_routing_auth
    by (simp add: bundle_highlighter_def)
qed

text \<open>
  C2, as the code has it. When the promise of a highlight call is rejected, as it is for
  a language the highlighter does not have, the component has neither a fallback nor a
  rejection handler: the rejection is left unhandled, the call leaves the pending ones,
  and the settling changes nothing of what the block displays, neither its markup nor
  its title bar. A block that is mounted with such a text and language and whose call
  settles before anything else happens to it displays the empty markup afterwards, and
  not the text.
\<close>

theorem rejected_call_unhandled_display_unchanged:
  "(i < length (pending cb) \<and>
    hl (fst (pending cb ! i)) (snd (pending cb ! i)) ''dark-plus'' = Rejected \<longrightarrow>
      CodeBlock_settle hl cb i =
        cb\<lparr>pending := take i (pending cb) @ drop (Suc i) (pending cb),
           unhandled := unhandled cb @ [pending cb ! i]\<rparr> \<and>
      html (CodeBlock_settle hl cb i) = html cb \<and>
      child_view (CodeBlock_child (CodeBlock_settle hl cb i)) = child_view (CodeBlock_child cb)) \<and>
   (hl c l ''dark-plus'' = Rejected \<longrightarrow>
      CodeBlock_settle hl (CodeBlock_mount c l t) 0 =
        \<lparr>props_code = c, props_lang = l, props_title = t, html = [], pending = [],
         unhandled = [(c, l)]\<rparr> \<and>
      child_view (CodeBlock_child (CodeBlock_settle hl (CodeBlock_mount c l t) 0)) =
        CodeBlock_view t [])"
  by (simp add: CodeBlock_settle_def CodeBlock_mount_def)

theorem rejected_call_unhandled_display_unchanged_witness:
  "0 < length (pending (CodeBlock_mount ''const x = 1'' ''unsupported-language-xyz'' None)) \<and>
   bundle_highlighter ''const x = 1'' ''unsupported-language-xyz'' ''dark-plus'' = Rejected \<and>
   CodeBlock_settle bundle_highlighter
       (CodeBlock_mount ''const x = 1'' ''unsupported-language-xyz'' None) 0 =
     \<lparr>props_code = ''const x = 1'', props_lang = ''unsupported-language-xyz'',
      props_title = None, html = [], pending = [],
      unhandled = [(''const x = 1'', ''unsupported-language-xyz'')]\<rparr> \<and>
   html (CodeBlock_settle bundle_highlighter
           (CodeBlock_mount ''const x = 1'' ''unsupported-language-xyz'' None) 0) =
     html (CodeBlock_mount ''const x = 1'' ''unsupported-language-xyz'' None) \<and>
   child_view (CodeBlock_child (CodeBlock_settle bundle_highlighter
           (CodeBlock_mount ''const x = 1'' ''unsupported-language-xyz'' None) 0)) =
     CodeBlock_view None []"
proof -
  let ?cb = "CodeBlock_mount ''const x = 1'' ''unsupported-language-xyz'' None"
  note both = rejected_call_unhandled_display_unchanged[where hl = bundle_highlighter
      and cb = ?cb and i = 0 and c = "''const x = 1''" and l = "''unsupported-language-xyz''"
      and t = None]
  have len: "0 < length (pending ?cb)"
    by (simp add: CodeBlock_mount_def)
  have rej: "bundle_highlighter ''const x = 1'' ''unsupported-language-xyz'' ''dark-plus'' =
      Rejected"
    by (simp add: bundle_highlighter_def)
  have rej': "bundle_highlighter (fst (pending ?cb ! 0)) (snd (pending ?cb ! 0)) ''dark-plus'' =
      Rejected"
    using rej by (simp add: CodeBlock_mount_def)
  from both len rej' have any: "html (CodeBlock_settle bundle_highlighter ?cb 0) = html ?cb"
    by blast
  from both rej have fresh: "CodeBlock_settle bundle_highlighter ?cb 0 =
      \<lparr>props_code = ''const x = 1'', props_lang = ''unsupported-language-xyz'',
       props_title = None, html = [], pending = [],
       unhandled = [(''const x = 1'', ''unsupported-language-xyz'')]\<rparr>"
    and view: "child_view (CodeBlock_child (CodeBlock_settle bundle_highlighter ?cb 0)) =
      CodeBlock_view None []"
    by blast+
  from len rej fresh any view show ?thesis
    by (intro conjI)
qed

text \<open>
  The claim C2 as the specification states it fails: a code block mounted with the text
  \<open>const x = 1\<close> and the language \<open>unsupported-language-xyz\<close>, whose call the highlighter
  rejects, is left with an unhandled rejection and displays the empty markup, not the
  text.
\<close>

theorem unsupported_language_counterexample:
  "bundle_highlighter ''const x = 1'' ''unsupported-language-xyz'' ''dark-plus'' = Rejected \<and>
   CodeBlock_settle bundle_highlighter
       (CodeBlock_mount ''const x = 1'' ''unsupported-language-xyz'' None) 0 =
     \<lparr>props_code = ''const x = 1'', props_lang = ''unsupported-language-xyz'',
      props_title = None, html = [], pending = [],
      unhandled = [(''const x = 1'', ''unsupported-language-xyz'')]\<rparr> \<and>
   \<not> sublist ''const x = 1''
       (html (CodeBlock_settle bundle_highlighter
                (CodeBlock_mount ''const x = 1'' ''unsupported-language-xyz'' None) 0))"
  by (simp add: CodeBlock_settle_def CodeBlock_mount_def bundle_highlighter_def)

text \<open>
  C1, as the code has it. The effect of \<open>CodeBlock\<close> has no cleanup and keeps no token, so
  the result of a prior call is not discarded: whenever the promise of any pending call
  of a mounted code block is fulfilled, whether or not the inputs of the block have
  changed since the call was made, its markup is stored and is what the block displays
  from then on. After any sequence of topic selections made before any promise settles,
  every mounted code block has the code and the language of the topic selected last and
  its call for them is pending; if the older calls of the block then settle in any order
  and that newest call is fulfilled last, the block ends with no pending call and with
  the markup of the topic selected last.
\<close>

theorem fulfilled_calls_applied_as_they_settle:
  "(j < length (children s) \<and> children s ! j = CodeBlock_child cb \<and>
    i < length (pending cb) \<and>
    hl (fst (pending cb ! i)) (snd (pending cb ! i)) ''dark-plus'' = Resolved h \<longrightarrow>
      children (step hl s (Settle j i)) ! j =
        CodeBlock_child
          (cb\<lparr>html := h, pending := take i (pending cb) @ drop (Suc i) (pending cb)\<rparr>) \<and>
      child_view (children (step hl s (Settle j i)) ! j) = CodeBlock_view (props_title cb) h) \<and>
   (n < length (children (run hl (map Click ks))) \<and>
    children (run hl (map Click ks)) ! n = CodeBlock_child nb \<and>
    settle_older hl nb older = Some nb' \<and>
    length (pending nb') = 1 \<and>
    hl (props_code nb) (props_lang nb) ''dark-plus'' = Resolved m \<longrightarrow>
      (\<exists>ttl. getBlocks (activeTab (run hl (map Click ks))) ! n =
          code_item (props_code nb) (props_lang nb) ttl) \<and>
      html (CodeBlock_settle hl nb' 0) = m \<and>
      pending (CodeBlock_settle hl nb' 0) = [])"
proof (intro conjI impI)
  assume a: "j < length (children s) \<and> children s ! j = CodeBlock_child cb \<and>
    i < length (pending cb) \<and>
    hl (fst (pending cb ! i)) (snd (pending cb ! i)) ''dark-plus'' = Resolved h"
  then have settled: "CodeBlock_settle hl cb i =
      cb\<lparr>html := h, pending := take i (pending cb) @ drop (Suc i) (pending cb)\<rparr>"
    by (simp add: CodeBlock_settle_def)
  from a have "children (step hl s (Settle j i)) ! j = CodeBlock_child (CodeBlock_settle hl cb i)"
    by (simp add: step_settle_child)
  with settled
  show "children (step hl s (Settle j i)) ! j =
      CodeBlock_child
        (cb\<lparr>html := h, pending := take i (pending cb) @ drop (Suc i) (pending cb)\<rparr>)"
    and "child_view (children (step hl s (Settle j i)) ! j) = CodeBlock_view (props_title cb) h"
    by simp_all
next
  let ?s = "run hl (map Click ks)"
  assume b: "n < length (children ?s) \<and> children ?s ! n = CodeBlock_child nb \<and>
    settle_older hl nb older = Some nb' \<and> length (pending nb') = 1 \<and>
    hl (props_code nb) (props_lang nb) ''dark-plus'' = Resolved m"
  have "list_all child_pending (children ?s)"
    unfolding run_def by (rule clicks_pending[OF init_pending])
  with b have pend: "call_pending nb"
    by (metis child_pending.simps(2) list_all_length)
  from b have older: "settle_older hl nb older = Some nb'" by simp
  from settle_older_keeps[OF older pend] b settle_last[of nb' hl m]
  show "html (CodeBlock_settle hl nb' 0) = m" and "pending (CodeBlock_settle hl nb' 0) = []"
    by simp_all
  have "getBlocks (activeTab ?s) ! n = map child_block (children ?s) ! n"
    by (simp only: run_blocks)
  also have "\<dots> = child_block (CodeBlock_child nb)"
    using b by simp
  finally show "\<exists>ttl. getBlocks (activeTab ?s) ! n =
      code_item (props_code nb) (props_lang nb) ttl"
    by simp
qed

theorem fulfilled_calls_applied_as_they_settle_witness:
  "children (step bundle_highlighter (run bundle_highlighter (map Click [1, 2, 3])) (Settle 0 0)) ! 0 =
     CodeBlock_child
       \<lparr>props_code = nextjsErrorCode, props_lang = ''typescript'',
        props_title = Some ''Next.js (Inconsistent)'',
        html = ''<pre><code>'' @ nextjsRoutingCode @ ''</code></pre>'',
        pending = [(nextjsAuthCode, ''typescript''), (nextjsErrorCode, ''typescript'')],
        unhandled = []\<rparr> \<and>
   children (run bundle_highlighter (map Click [1, 2, 3])) ! 0 =
     CodeBlock_child
       \<lparr>props_code = nextjsErrorCode, props_lang = ''typescript'',
        props_title = Some ''Next.js (Inconsistent)'', html = [],
        pending = [(nextjsRoutingCode, ''typescript''), (nextjsAuthCode, ''typescript''),
                   (nextjsErrorCode, ''typescript'')], unhandled = []\<rparr> \<and>
   settle_older bundle_highlighter
       \<lparr>props_code = nextjsErrorCode, props_lang = ''typescript'',
        props_title = Some ''Next.js (Inconsistent)'', html = [],
        pending = [(nextjsRoutingCode, ''typescript''), (nextjsAuthCode, ''typescript''),
                   (nextjsErrorCode, ''typescript'')], unhandled = []\<rparr> [1, 0] =
     Some \<lparr>props_code = nextjsErrorCode, props_lang = ''typescript'',
           props_title = Some ''Next.js (Inconsistent)'',
           html = ''<pre><code>'' @ nextjsRoutingCode @ ''</code></pre>'',
           pending = [(nextjsErrorCode, ''typescript'')], unhandled = []\<rparr> \<and>
   html (CodeBlock_settle bundle_highlighter
           \<lparr>props_code = nextjsErrorCode, props_lang = ''typescript'',
            props_title = Some ''Next.js (Inconsistent)'',
            html = ''<pre><code>'' @ nextjsRoutingCode @ ''</code></pre>'',
            pending = [(nextjsErrorCode, ''typescript'')], unhandled = []\<rparr> 0) =
     ''<pre><code>'' @ nextjsErrorCode @ ''</code></pre>''"
proof -
  let ?s = "run bundle_highlighter (map Click [1, 2, 3])"
  let ?cb = "\<lparr>props_code = nextjsErrorCode, props_lang = ''typescript'',
        props_title = Some ''Next.js (Inconsistent)'', html = [],
        pending = [(nextjsRoutingCode, ''typescript''), (nextjsAuthCode, ''typescript''),
                   (nextjsErrorCode, ''typescript'')], unhandled = []\<rparr>"
  let ?cb' = "\<lparr>props_code = nextjsErrorCode, props_lang = ''typescript'',
           props_title = Some ''Next.js (Inconsistent)'',
           html = ''<pre><code>'' @ nextjsRoutingCode @ ''</code></pre>'',
           pending = [(nextjsErrorCode, ''typescript'')], unhandled = []\<rparr>"
  note both = fulfilled_calls_applied_as_they_settle[where hl = bundle_highlighter
      and s = ?s and j = 0 and cb = ?cb and i = 0
      and h = "''<pre><code>'' @ nextjsRoutingCode @ ''</code></pre>''"
      and ks = "[1, 2, 3]" and n = 0 and nb = ?cb and nb' = ?cb' and older = "[1, 0]"
      and m = "''<pre><code>'' @ nextjsErrorCode @ ''</code></pre>''"]
  have clicks: "map Click [1, 2, 3] = [Click 1, Click 2, Click 3]"
    by simp
  have len: "0 < length (children ?s)"
    unfolding clicks three_clicks by simp
  have child: "children ?s ! 0 = CodeBlock_child ?cb"
    unfolding clicks three_clicks by simp
  have first: "0 < length (pending ?cb)"
    by simp
  have stale: "bundle_highlighter (fst (pending ?cb ! 0)) (snd (pending ?cb ! 0)) ''dark-plus'' =
      Resolved (''<pre><code>'' @ nextjsRoutingCode @ ''</code></pre>'')"
    by (simp add: bundle_highlighter_def)
  have older: "settle_older bundle_highlighter ?cb [1, 0] = Some ?cb'"
    by (simp add: CodeBlock_settle_def bundle_highlighter_def)
  have one: "length (pending ?cb') = 1"
    by simp
  have res: "bundle_highlighter (props_code ?cb) (props_lang ?cb) ''dark-plus'' =
      Resolved (''<pre><code>'' @ nextjsErrorCode @ ''</code></pre>'')"
    by (simp add: bundle_highlighter_def)
  from both len child first stale
  have "children (step bundle_highlighter ?s (Settle 0 0)) ! 0 =
      CodeBlock_child (?cb\<lparr>html := ''<pre><code>'' @ nextjsRoutingCode @ ''</code></pre>'',
        pending := take 0 (pending ?cb) @ drop (Suc 0) (pending ?cb)\<rparr>)"
    by blast
  then have applied: "children (step bundle_highlighter ?s (Settle 0 0)) ! 0 =
     CodeBlock_child
       \<lparr>props_code = nextjsErrorCode, props_lang = ''typescript'',
        props_title = Some ''Next.js (Inconsistent)'',
        html = ''<pre><code>'' @ nextjsRoutingCode @ ''</code></pre>'',
        pending = [(nextjsAuthCode, ''typescript''), (nextjsErrorCode, ''typescript'')],
        unhandled = []\<rparr>"
    by simp
  from both len child older one res
  have final: "html (CodeBlock_settle bundle_highlighter ?cb' 0) =
      ''<pre><code>'' @ nextjsErrorCode @ ''</code></pre>''"
    by blast
  from applied child older final show ?thesis
    by (intro conjI)
qed

text \<open>
  The claim C1 as the specification states it fails. The topics routing, auth and error
  are selected before any promise settles; the three calls of the left block then settle
  newest first. No call is pending any more, the active topic is error, and the left
  block shows the markup of the routing code, which is not the markup of the error code.
\<close>

theorem stale_highlight_counterexample:
  "run bundle_highlighter [Click 1, Click 2, Click 3, Settle 0 2, Settle 0 1, Settle 0 0] =
     \<lparr>activeTab = ''error'',
      children =
        [CodeBlock_child
           \<lparr>props_code = nextjsErrorCode, props_lang = ''typescript'',
            props_title = Some ''Next.js (Inconsistent)'',
            html = ''<pre><code>'' @ nextjsRoutingCode @ ''</code></pre>'',
            pending = [], unhandled = []\<rparr>,
         CodeBlock_child
           \<lparr>props_code = honoErrorCode, props_lang = ''typescript'',
            props_title = Some ''Hono (Global Handler)'', html = [],
            pending = [(honoRoutingCode, ''typescript''), (honoAuthCode, ''typescript''),
                       (honoErrorCode, ''typescript'')], unhandled = []\<rparr>]\<rparr> \<and>
   ''<pre><code>'' @ nextjsRoutingCode @ ''</code></pre>'' \<noteq>
     ''<pre><code>'' @ nextjsErrorCode @ ''</code></pre>''"
proof -
  have "run bundle_highlighter
          [Click 1, Click 2, Click 3, Settle 0 2, Settle 0 1, Settle 0 0] =
        foldl (step bundle_highlighter) (run bundle_highlighter [Click 1, Click 2, Click 3])
          [Settle 0 2, Settle 0 1, Settle 0 0]"
    by (simp add: run_def)
  then show ?thesis
    unfolding three_clicks using nextjs_routing_error
    by (simp add: CodeBlock_settle_def bundle_highlighter_def)
qed

end
